theory Spec2Isabelle
  imports Complex_Main
begin

section \<open>Numbers and strings of the source language\<close>

text \<open>
  The fields of a dice roll, the simulation count and the outcomes are TypeScript
  \<^verbatim>\<open>number\<close>s. Every number the parser produces is an integer or \<^verbatim>\<open>NaN\<close>
  (the results of \<^verbatim>\<open>parseInt\<close>), and the evaluators only add integers, so a number is
  modelled as an unbounded integer or \<^verbatim>\<open>NaN\<close>. The sums are exact as long as the
  magnitudes stay below \<open>2 ^ 53\<close>; negative zero is identified with zero, and the
  infinities are left out. The one number that is not an integer, the result of
  \<^verbatim>\<open>Math.random()\<close>, is modelled as a double, and its product is rounded as IEEE 754
  rounds it (see the Monte Carlo evaluator).
\<close>

datatype number = NaN | Num int

fun plus_number :: "number \<Rightarrow> number \<Rightarrow> number" where
  "plus_number (Num a) (Num b) = Num (a + b)"
| "plus_number _ _ = NaN"

text \<open>
  How often the body of \<^verbatim>\<open>for (let k = 0; k < bound; k++)\<close> runs: a comparison with
  \<^verbatim>\<open>NaN\<close> is false, and so is \<open>0 < bound\<close> for a bound that is not positive.
\<close>

fun iterations :: "number \<Rightarrow> nat" where
  "iterations NaN = 0"
| "iterations (Num n) = nat n"

text \<open>
  A string is a list of characters with codes below 256. The white space of
  \<^verbatim>\<open>parseInt\<close> and of the regular expression class \<^verbatim>\<open>\s\<close> in that range is tab, line
  feed, vertical tab, form feed, carriage return, space and the no-break space.
\<close>

definition is_space :: "char \<Rightarrow> bool" where
  "is_space c = (of_char c \<in> {9::nat, 10, 11, 12, 13, 32, 160})"

definition is_digit :: "char \<Rightarrow> bool" where
  \<comment> \<open>the class \<^verbatim>\<open>\d\<close>: the characters 0 to 9\<close>
  "is_digit c = (48 \<le> (of_char c :: nat) \<and> (of_char c :: nat) \<le> 57)"

definition digit_value :: "char \<Rightarrow> nat option" where
  \<comment> \<open>the value of a digit in a radix up to 36\<close>
  "digit_value c =
     (let n = (of_char c :: nat) in
      if 48 \<le> n \<and> n \<le> 57 then Some (n - 48)
      else if 97 \<le> n \<and> n \<le> 122 then Some (n - 87)
      else if 65 \<le> n \<and> n \<le> 90 then Some (n - 55)
      else None)"

definition is_radix_digit :: "nat \<Rightarrow> char \<Rightarrow> bool" where
  "is_radix_digit R c = (case digit_value c of None \<Rightarrow> False | Some v \<Rightarrow> v < R)"

definition radix_value :: "nat \<Rightarrow> string \<Rightarrow> int" where
  "radix_value R Z = foldl (\<lambda>acc c. acc * int R + (case digit_value c of None \<Rightarrow> 0 | Some v \<Rightarrow> int v)) 0 Z"

text \<open>
  \<^verbatim>\<open>parseInt(string)\<close> with no radix: leading white space is skipped, a sign is read,
  the prefix \<^verbatim>\<open>0x\<close> or \<^verbatim>\<open>0X\<close> selects radix 16, and the longest run of digits of the
  radix is the value. Whatever follows the digits is ignored; no digit at all gives
  \<^verbatim>\<open>NaN\<close>.
\<close>

definition parseInt :: "string \<Rightarrow> number" where
  "parseInt str =
     (let S = dropWhile is_space str;
          negative = (case S of [] \<Rightarrow> False | c # _ \<Rightarrow> c = CHR ''-'');
          S1 = (case S of [] \<Rightarrow> [] | c # cs \<Rightarrow> if c = CHR ''+'' \<or> c = CHR ''-'' then cs else S);
          hex = (take 2 S1 = ''0x'' \<or> take 2 S1 = ''0X'');
          R = (if hex then 16 else 10);
          S2 = (if hex then drop 2 S1 else S1);
          Z = takeWhile (is_radix_digit R) S2
      in if Z = [] then NaN
         else Num ((if negative then - 1 else 1) * radix_value R Z))"

text \<open>\<^verbatim>\<open>s.split(sep)\<close> for a separator of one character.\<close>

fun split_str :: "char \<Rightarrow> string \<Rightarrow> string list" where
  "split_str sep [] = [[]]"
| "split_str sep (c # cs) =
     (if c = sep then [] # split_str sep cs
      else (case split_str sep cs of [] \<Rightarrow> [[c]] | p # ps \<Rightarrow> (c # p) # ps))"

section \<open>The parser of page.tsx\<close>

record DiceRoll =
  trial :: number
  sides :: number

datatype error = InvalidBaseDiceExpression | InvalidDiceExpression

text \<open>
  The match of \<^verbatim>\<open>/^(\d+)d(\d+)$/\<close>: the two groups, when the whole string is digits,
  the letter d, digits.
\<close>

definition match_dice :: "string \<Rightarrow> (string \<times> string) option" where
  "match_dice expr =
     (let g1 = takeWhile is_digit expr in
      case dropWhile is_digit expr of
        [] \<Rightarrow> None
      | c # g2 \<Rightarrow>
          if g1 \<noteq> [] \<and> c = CHR ''d'' \<and> g2 \<noteq> [] \<and> list_all is_digit g2
          then Some (g1, g2) else None)"

definition parseNode :: "string \<Rightarrow> error + DiceRoll" where
  "parseNode expr =
     (if CHR ''d'' \<in> set expr then
        (case match_dice expr of
           None \<Rightarrow> Inl InvalidBaseDiceExpression
         | Some (g1, g2) \<Rightarrow> Inr \<lparr>trial = parseInt g1, sides = parseInt g2\<rparr>)
      else Inr \<lparr>trial = parseInt expr, sides = Num 1\<rparr>)"

text \<open>
  The loop over the components pushes each parsed node onto \<^verbatim>\<open>diceRolls\<close>; an
  exception of \<^verbatim>\<open>parseNode\<close> leaves the function at once.
\<close>

fun parse_components :: "string list \<Rightarrow> DiceRoll list \<Rightarrow> error + DiceRoll list" where
  "parse_components [] diceRolls = Inr diceRolls"
| "parse_components (component # rest) diceRolls =
     (case parseNode component of
        Inl e \<Rightarrow> Inl e
      | Inr roll \<Rightarrow> parse_components rest (diceRolls @ [roll]))"

definition parseDiceExpression :: "string \<Rightarrow> error + DiceRoll list" where
  "parseDiceExpression expression = parse_components (split_str (CHR ''+'') expression) []"

section \<open>The exact evaluator\<close>

text \<open>The list \<^verbatim>\<open>aug\<close> of the faces \<open>1, \<dots>, sides\<close>, built by the loop over \<^verbatim>\<open>j\<close>.\<close>

definition aug :: "number \<Rightarrow> int list" where
  "aug s = map (\<lambda>j. int j + 1) [0..<iterations s]"

definition add_die :: "number \<Rightarrow> int list \<Rightarrow> int list" where
  \<comment> \<open>\<^verbatim>\<open>results.flatMap(x => aug.map(y => x + y))\<close>\<close>
  "add_die s results = concat (map (\<lambda>x. map (\<lambda>y. x + y) (aug s)) results)"

fun exact_trials :: "nat \<Rightarrow> number \<Rightarrow> int list \<Rightarrow> int list" where
  "exact_trials 0 s results = results"
| "exact_trials (Suc n) s results = exact_trials n s (add_die s results)"

fun exact_rolls :: "DiceRoll list \<Rightarrow> int list \<Rightarrow> int list" where
  "exact_rolls [] results = results"
| "exact_rolls (roll # rest) results =
     exact_rolls rest (exact_trials (iterations (trial roll)) (sides roll) results)"

definition getExactDistribution :: "DiceRoll list \<Rightarrow> int list" where
  "getExactDistribution diceRolls = exact_rolls diceRolls [0]"

section \<open>The Monte Carlo evaluator\<close>

text \<open>
  \<^verbatim>\<open>Math.random()\<close> reads an ambient source of doubles in \<open>[0, 1)\<close>. The source is
  made explicit: \<open>rnd k\<close> is the value of the \<open>k\<close>-th call, and the evaluator passes
  along the index of the next call.

  A double in \<open>[0, 1)\<close> is \<open>mantissa / 2 ^ exponent\<close> with a mantissa below \<open>2 ^ 53\<close>
  and an exponent of at most 1074. Its product with the integer \<^verbatim>\<open>sides\<close> is the
  exact product rounded to 53 significant bits, ties to even, as IEEE 754
  multiplication does for every integer that a double holds: a product whose numerator needs more than 53 bits is at least
  \<open>2 ^ 53 / 2 ^ 1074\<close>, hence a normal number, and a shorter one is a double as it is.
\<close>

function bit_length :: "int \<Rightarrow> nat" where
  "bit_length n = (if n \<le> 0 then 0 else Suc (bit_length (n div 2)))"
  by pat_completeness auto
termination
  by (relation "measure nat") auto

declare bit_length.simps [simp del]

definition round53 :: "int \<Rightarrow> int" where
  \<comment> \<open>a natural number rounded to 53 significant bits, ties to even\<close>
  "round53 M =
     (if bit_length M \<le> 53 then M
      else (let s = bit_length M - 53;
                q = M div 2 ^ s;
                rest = M mod 2 ^ s;
                half = 2 ^ (s - 1)
            in (if half < rest \<or> (rest = half \<and> odd q) then q + 1 else q) * 2 ^ s))"

record double01 =
  mantissa :: int
  exponent :: nat

definition in_unit_interval :: "double01 \<Rightarrow> bool" where
  "in_unit_interval r =
     (0 \<le> mantissa r \<and> mantissa r < 2 ^ 53 \<and> exponent r \<le> 1074 \<and>
      mantissa r < 2 ^ exponent r)"

text \<open>
  The rounded product is \<open>sgn n * round53 (mantissa * |n|) / 2 ^ exponent\<close>;
  \<^verbatim>\<open>Math.floor\<close> of it is the integer quotient, which rounds down.
\<close>

definition die_face :: "double01 \<Rightarrow> number \<Rightarrow> number" where
  \<comment> \<open>\<^verbatim>\<open>Math.floor(Math.random() * roll.sides) + 1\<close>\<close>
  "die_face r s =
     (case s of
        NaN \<Rightarrow> NaN
      | Num n \<Rightarrow> Num ((sgn n * round53 (mantissa r * \<bar>n\<bar>)) div 2 ^ exponent r + 1))"

fun mc_trials :: "(nat \<Rightarrow> double01) \<Rightarrow> nat \<Rightarrow> number \<Rightarrow> number \<times> nat \<Rightarrow> number \<times> nat" where
  "mc_trials rnd 0 s (current, k) = (current, k)"
| "mc_trials rnd (Suc n) s (current, k) =
     mc_trials rnd n s (plus_number current (die_face (rnd k) s), Suc k)"

fun mc_rolls :: "(nat \<Rightarrow> double01) \<Rightarrow> DiceRoll list \<Rightarrow> number \<times> nat \<Rightarrow> number \<times> nat" where
  "mc_rolls rnd [] st = st"
| "mc_rolls rnd (roll # rest) st =
     mc_rolls rnd rest (mc_trials rnd (iterations (trial roll)) (sides roll) st)"

fun mc_simulations ::
  "(nat \<Rightarrow> double01) \<Rightarrow> DiceRoll list \<Rightarrow> nat \<Rightarrow> number list \<times> nat \<Rightarrow> number list \<times> nat" where
  "mc_simulations rnd diceRolls 0 (results, k) = (results, k)"
| "mc_simulations rnd diceRolls (Suc n) (results, k) =
     (case mc_rolls rnd diceRolls (Num 0, k) of
        (current, k') \<Rightarrow> mc_simulations rnd diceRolls n (results @ [current], k'))"

definition getMonteCarloDistribution ::
  "(nat \<Rightarrow> double01) \<Rightarrow> DiceRoll list \<Rightarrow> number \<Rightarrow> number list" where
  "getMonteCarloDistribution rnd diceRolls numSimulations =
     fst (mc_simulations rnd diceRolls (iterations numSimulations) ([], 0))"

section \<open>The statistics of a distribution\<close>

text \<open>
  \<^verbatim>\<open>Math.min\<close> and \<^verbatim>\<open>Math.max\<close> of two numbers; either is \<^verbatim>\<open>NaN\<close> as soon as one
  argument is. The mean is a quotient and need not be an integer.
\<close>

fun Math_min :: "number \<Rightarrow> number \<Rightarrow> number" where
  "Math_min (Num a) (Num b) = Num (min a b)"
| "Math_min _ _ = NaN"

fun Math_max :: "number \<Rightarrow> number \<Rightarrow> number" where
  "Math_max (Num a) (Num b) = Num (max a b)"
| "Math_max _ _ = NaN"

datatype quotient = QNaN | Quot real

fun divide_by_length :: "number \<Rightarrow> nat \<Rightarrow> quotient" where
  "divide_by_length NaN n = QNaN"
| "divide_by_length (Num a) n = Quot (of_int a / of_nat n)"

record Stats =
  stats_min :: number
  stats_max :: number
  stats_mean :: quotient
  stats_expected :: quotient

text \<open>
  Each field tests \<^verbatim>\<open>distribution.length\<close> first, so that the spread calls and the
  division only see a list that is not empty.
\<close>

definition stats :: "number list \<Rightarrow> Stats" where
  "stats distribution =
     \<lparr>stats_min = (case distribution of [] \<Rightarrow> Num 0 | x # xs \<Rightarrow> foldl Math_min x xs),
      stats_max = (case distribution of [] \<Rightarrow> Num 0 | x # xs \<Rightarrow> foldl Math_max x xs),
      stats_mean =
        (if length distribution \<noteq> 0
         then divide_by_length (foldl plus_number (Num 0) distribution) (length distribution)
         else Quot 0),
      stats_expected =
        (if length distribution \<noteq> 0
         then divide_by_length (foldl plus_number (Num 0) distribution) (length distribution)
         else Quot 0)\<rparr>"

section \<open>The parser of the second page source\<close>

text \<open>
  The repository holds a second version of the page whose parser reads the whole
  expression as one node. Its names carry the suffix 2 here. The regular expression
  \<^verbatim>\<open>/^(\d+)(d\d+)(.*)$/\<close> matches digits, the letter d with digits, and a rest free of
  line terminators.
\<close>

record DiceRoll2 =
  multiplier :: number
  sides2 :: number
  modifier :: string

definition match_dice2 :: "string \<Rightarrow> (string \<times> string \<times> string) option" where
  "match_dice2 expr =
     (let g1 = takeWhile is_digit expr in
      case dropWhile is_digit expr of
        [] \<Rightarrow> None
      | c # cs \<Rightarrow>
          (let ds = takeWhile is_digit cs; g3 = dropWhile is_digit cs in
           if g1 \<noteq> [] \<and> c = CHR ''d'' \<and> ds \<noteq> [] \<and>
              list_all (\<lambda>x. of_char x \<notin> {10::nat, 13}) g3
           then Some (g1, c # ds, g3) else None))"

definition parseNode2 :: "string \<Rightarrow> error + DiceRoll2" where
  "parseNode2 expr =
     (case match_dice2 expr of
        None \<Rightarrow> Inl InvalidDiceExpression
      | Some (g1, g2, g3) \<Rightarrow>
          Inr \<lparr>multiplier = parseInt g1, sides2 = parseInt g2,
               modifier = (if g3 = [] then ''+'' else g3)\<rparr>)"

definition remove_whitespace :: "string \<Rightarrow> string" where
  \<comment> \<open>\<^verbatim>\<open>expression.replace(/\s+/g, '')\<close>\<close>
  "remove_whitespace expression = filter (\<lambda>c. \<not> is_space c) expression"

definition fill_parentheses :: "string \<Rightarrow> string" where
  \<comment> \<open>\<^verbatim>\<open>replace(/\(/g, "1d(")\<close>, then \<^verbatim>\<open>replace(/\)/g, ")")\<close>, which changes nothing\<close>
  "fill_parentheses expression =
     concat (map (\<lambda>c. if c = CHR ''('' then ''1d('' else [c]) expression)"

definition parseDiceExpression2 :: "string \<Rightarrow> error + DiceRoll2" where
  "parseDiceExpression2 expression =
     parseNode2 (fill_parentheses (remove_whitespace expression))"

section \<open>Well-formed rolls\<close>

text \<open>
  A roll is well formed when its two fields are integers and at least 1. \<open>int_of\<close>
  reads the integer of a number that is known not to be \<^verbatim>\<open>NaN\<close>.
\<close>

fun int_of :: "number \<Rightarrow> int" where
  "int_of NaN = 0"
| "int_of (Num n) = n"

definition well_formed :: "DiceRoll \<Rightarrow> bool" where
  "well_formed roll =
     (case trial roll of
        NaN \<Rightarrow> False
      | Num t \<Rightarrow> (case sides roll of NaN \<Rightarrow> False | Num s \<Rightarrow> 1 \<le> t \<and> 1 \<le> s))"

section \<open>Properties of the exact evaluator\<close>

lemma well_formedD:
  assumes "well_formed roll"
  obtains t s where "trial roll = Num t" "sides roll = Num s" "1 \<le> t" "1 \<le> s"
  using assms by (auto simp: well_formed_def split: number.splits)

lemma length_aug: "length (aug s) = iterations s"
  by (simp add: aug_def)

lemma set_aug_Num: "set (aug (Num s)) = {1..s}"
proof -
  have "set (aug (Num s)) = (\<lambda>j. int j + 1) ` {0..<nat s}"
    by (simp add: aug_def)
  also have "\<dots> = {1..s}"
  proof (intro set_eqI iffI)
    fix x assume "x \<in> (\<lambda>j. int j + 1) ` {0..<nat s}"
    then show "x \<in> {1..s}" by auto
  next
    fix x assume x: "x \<in> {1..s}"
    then have "x = int (nat (x - 1)) + 1" "nat (x - 1) \<in> {0..<nat s}" by auto
    then show "x \<in> (\<lambda>j. int j + 1) ` {0..<nat s}" by blast
  qed
  finally show ?thesis .
qed

lemma length_add_die: "length (add_die s results) = length results * iterations s"
  by (induction results) (simp_all add: add_die_def length_aug)

lemma set_add_die:
  "set (add_die s results) = {x + y | x y. x \<in> set results \<and> y \<in> set (aug s)}"
  by (auto simp: add_die_def)

lemma length_exact_trials:
  "length (exact_trials n s results) = length results * iterations s ^ n"
  by (induction n arbitrary: results) (simp_all add: length_add_die)

text \<open>
  Whatever the rolls are, each one multiplies the number of outcomes by the passes of
  its loop over the faces, raised to the passes of its loop over the trials.
\<close>

lemma length_exact_rolls:
  "length (exact_rolls diceRolls results) =
     length results *
     prod_list (map (\<lambda>roll. iterations (sides roll) ^ iterations (trial roll)) diceRolls)"
  by (induction diceRolls arbitrary: results) (simp_all add: length_exact_trials)

text \<open>
  Claim C1. For every list of well-formed rolls (each with trial and sides at least 1),
  as the parser produces them, the exact evaluator returns as many outcomes as the
  product over the rolls of sides to the power trial. The parse of \<^verbatim>\<open>2d6\<close> is the
  example: 36 outcomes.
\<close>

theorem getExactDistribution_length:
  assumes "\<forall>roll \<in> set diceRolls. well_formed roll"
  shows "length (getExactDistribution diceRolls) =
           prod_list (map (\<lambda>roll. nat (int_of (sides roll)) ^ nat (int_of (trial roll))) diceRolls)"
proof -
  have eq: "iterations (sides roll) ^ iterations (trial roll) =
            nat (int_of (sides roll)) ^ nat (int_of (trial roll))"
    if "roll \<in> set diceRolls" for roll
  proof -
    from that assms have "well_formed roll" by blast
    then show ?thesis by (elim well_formedD) simp
  qed
  have m: "map (\<lambda>roll. iterations (sides roll) ^ iterations (trial roll)) diceRolls =
           map (\<lambda>roll. nat (int_of (sides roll)) ^ nat (int_of (trial roll))) diceRolls"
    by (rule map_cong[OF refl]) (rule eq)
  show ?thesis
    unfolding getExactDistribution_def length_exact_rolls m by simp
qed

theorem getExactDistribution_length_witness:
  "parseDiceExpression ''2d6'' = Inr [\<lparr>trial = Num 2, sides = Num 6\<rparr>] \<and>
   well_formed \<lparr>trial = Num 2, sides = Num 6\<rparr> \<and>
   length (getExactDistribution [\<lparr>trial = Num 2, sides = Num 6\<rparr>]) = 36"
proof -
  have p: "parseDiceExpression ''2d6'' = Inr [\<lparr>trial = Num 2, sides = Num 6\<rparr>]"
    by code_simp
  have w: "well_formed \<lparr>trial = Num 2, sides = Num 6\<rparr>"
    by (simp add: well_formed_def)
  then have "\<forall>roll \<in> set [\<lparr>trial = Num 2, sides = Num 6\<rparr>]. well_formed roll" by simp
  from getExactDistribution_length[OF this] p w show ?thesis by simp
qed


text \<open>
  One more die raises the least outcome by 1 and the greatest by the number of faces.
\<close>

lemma add_die_bounds:
  assumes "\<forall>x \<in> set results. lo \<le> x \<and> x \<le> hi"
  shows "\<forall>x \<in> set (add_die (Num s) results). lo + 1 \<le> x \<and> x \<le> hi + s"
  using assms by (fastforce simp: set_add_die set_aug_Num)

lemma exact_trials_bounds:
  assumes "\<forall>x \<in> set results. lo \<le> x \<and> x \<le> hi"
  shows "\<forall>x \<in> set (exact_trials n (Num s) results). lo + int n \<le> x \<and> x \<le> hi + int n * s"
  using assms
proof (induction n arbitrary: results lo hi)
  case 0
  then show ?case by simp
next
  case (Suc n)
  from add_die_bounds[OF Suc.prems]
  have "\<forall>x \<in> set (add_die (Num s) results). lo + 1 \<le> x \<and> x \<le> hi + s" .
  from Suc.IH[OF this] show ?case
    by (simp add: algebra_simps)
qed

lemma exact_rolls_bounds:
  assumes "\<forall>roll \<in> set diceRolls. well_formed roll"
    and "\<forall>x \<in> set results. lo \<le> x \<and> x \<le> hi"
  shows "\<forall>x \<in> set (exact_rolls diceRolls results).
           lo + sum_list (map (\<lambda>roll. int_of (trial roll)) diceRolls) \<le> x \<and>
           x \<le> hi + sum_list (map (\<lambda>roll. int_of (trial roll) * int_of (sides roll)) diceRolls)"
  using assms
proof (induction diceRolls arbitrary: results lo hi)
  case Nil
  then show ?case by simp
next
  case (Cons roll rest)
  from Cons.prems(1) have "well_formed roll" by simp
  then obtain t s where ts: "trial roll = Num t" "sides roll = Num s" "1 \<le> t" "1 \<le> s"
    by (rule well_formedD)
  from exact_trials_bounds[OF Cons.prems(2), of "nat t" s]
  have b: "\<forall>x \<in> set (exact_trials (nat t) (Num s) results). lo + t \<le> x \<and> x \<le> hi + t * s"
    using ts by simp
  from Cons.prems(1) have "\<forall>roll \<in> set rest. well_formed roll" by simp
  from Cons.IH[OF this b] show ?case
    using ts by (simp add: algebra_simps)
qed

text \<open>
  Claim C9. For every list of well-formed rolls, each outcome of the exact evaluator
  is an integer between the sum of the trials (every die shows 1) and the sum of
  trial times sides (every die shows its highest face).
\<close>

theorem getExactDistribution_bounds:
  assumes "\<forall>roll \<in> set diceRolls. well_formed roll"
    and "x \<in> set (getExactDistribution diceRolls)"
  shows "sum_list (map (\<lambda>roll. int_of (trial roll)) diceRolls) \<le> x \<and>
         x \<le> sum_list (map (\<lambda>roll. int_of (trial roll) * int_of (sides roll)) diceRolls)"
proof -
  have "\<forall>x \<in> set [0::int]. 0 \<le> x \<and> x \<le> 0" by simp
  from exact_rolls_bounds[OF assms(1) this] assms(2) show ?thesis
    by (simp add: getExactDistribution_def)
qed

theorem getExactDistribution_bounds_witness:
  "well_formed \<lparr>trial = Num 1, sides = Num 6\<rparr> \<and> well_formed \<lparr>trial = Num 2, sides = Num 4\<rparr> \<and>
   14 \<in> set (getExactDistribution [\<lparr>trial = Num 1, sides = Num 6\<rparr>, \<lparr>trial = Num 2, sides = Num 4\<rparr>]) \<and>
   (3::int) \<le> 14 \<and> (14::int) \<le> 1 * 6 + 2 * 4"
proof -
  have w: "well_formed \<lparr>trial = Num 1, sides = Num 6\<rparr>" "well_formed \<lparr>trial = Num 2, sides = Num 4\<rparr>"
    by (simp_all add: well_formed_def)
  then have h1: "\<forall>roll \<in> set [\<lparr>trial = Num 1, sides = Num 6\<rparr>, \<lparr>trial = Num 2, sides = Num 4\<rparr>].
                   well_formed roll"
    by simp
  have h2: "14 \<in> set (getExactDistribution
                        [\<lparr>trial = Num 1, sides = Num 6\<rparr>, \<lparr>trial = Num 2, sides = Num 4\<rparr>])"
    by code_simp
  from getExactDistribution_bounds[OF h1 h2] w h2 show ?thesis by simp
qed

section \<open>Properties of the Monte Carlo evaluator\<close>

text \<open>
  The product is rounded as the doubles are: where the exact product lies just below
  an integer, the rounded one reaches it, and the face is one higher than exact
  arithmetic would give.
\<close>

lemma die_face_rounds_up:
  "in_unit_interval \<lparr>mantissa = 6004799503160661, exponent = 54\<rparr> \<and>
   die_face \<lparr>mantissa = 6004799503160661, exponent = 54\<rparr> (Num 3) = Num 2 \<and>
   6004799503160661 * 3 div (2 ^ 54 :: int) + 1 = 1 \<and>
   in_unit_interval \<lparr>mantissa = 2573485501354569, exponent = 52\<rparr> \<and>
   die_face \<lparr>mantissa = 2573485501354569, exponent = 52\<rparr> (Num 7) = Num 5 \<and>
   2573485501354569 * 7 div (2 ^ 52 :: int) + 1 = 4"
  by code_simp














text \<open>
  Claim C10. With a simulation count that is zero or negative the Monte Carlo evaluator
  returns the empty sequence, for every list of rolls and every random source.
\<close>

theorem getMonteCarloDistribution_not_positive:
  assumes "n \<le> 0"
  shows "getMonteCarloDistribution rnd diceRolls (Num n) = []"
  using assms by (simp add: getMonteCarloDistribution_def)

theorem getMonteCarloDistribution_not_positive_witness:
  "(- 3::int) \<le> 0 \<and>
   getMonteCarloDistribution (\<lambda>k. \<lparr>mantissa = 1, exponent = 1\<rparr>) [\<lparr>trial = Num 2, sides = Num 6\<rparr>] (Num (- 3)) = []"
  using getMonteCarloDistribution_not_positive[of "- 3" "\<lambda>k. \<lparr>mantissa = 1, exponent = 1\<rparr>" "[\<lparr>trial = Num 2, sides = Num 6\<rparr>]"]
  by simp

section \<open>The statistics of the empty distribution\<close>

text \<open>
  Claim C8. The statistics of the empty outcome sequence are minimum 0, maximum 0 and
  mean 0; the computation has no failing branch.
\<close>

theorem stats_empty:
  "stats [] = \<lparr>stats_min = Num 0, stats_max = Num 0, stats_mean = Quot 0, stats_expected = Quot 0\<rparr>"
  by (simp add: stats_def)

section \<open>What the parsers accept\<close>

text \<open>
  Claim C3. Every string outside the grammar, among them \<^verbatim>\<open>1x6\<close>, the empty string
  and \<^verbatim>\<open>d6\<close>, is to be rejected with an error. The parser of page.tsx rejects
  \<^verbatim>\<open>d6\<close>, but a component without the letter d goes to \<^verbatim>\<open>parseInt\<close> unchecked:
  \<^verbatim>\<open>1x6\<close> is read as the constant 1, and the empty string as a roll whose trial is
  \<^verbatim>\<open>NaN\<close>.
\<close>

theorem parseDiceExpression_accepts_malformed:
  "parseDiceExpression ''1x6'' = Inr [\<lparr>trial = Num 1, sides = Num 1\<rparr>] \<and>
   parseDiceExpression [] = Inr [\<lparr>trial = NaN, sides = Num 1\<rparr>] \<and>
   parseDiceExpression ''d6'' = Inl InvalidBaseDiceExpression"
  by code_simp

text \<open>
  The parser of the second page source removes the white space first, so it cannot
  tell a string from its copy without white space.
\<close>

lemma parseDiceExpression2_whitespace:
  "parseDiceExpression2 (remove_whitespace expression) = parseDiceExpression2 expression"
  by (simp add: parseDiceExpression2_def remove_whitespace_def)

text \<open>
  Claim C5. Parsing is to ignore white space: a string and its copy without white
  space parse alike. The parser of page.tsx announces the removal in a comment and
  splits the string as it is: \<^verbatim>\<open>1d6 + 1d6\<close> is rejected, while \<^verbatim>\<open>1d6+1d6\<close> gives
  two rolls.
\<close>

theorem parseDiceExpression_whitespace_kept:
  "remove_whitespace ''1d6 + 1d6'' = ''1d6+1d6'' \<and>
   parseDiceExpression ''1d6 + 1d6'' = Inl InvalidBaseDiceExpression \<and>
   parseDiceExpression ''1d6+1d6'' =
     Inr [\<lparr>trial = Num 1, sides = Num 6\<rparr>, \<lparr>trial = Num 1, sides = Num 6\<rparr>]"
  by code_simp

text \<open>
  Claim C6. A group in parentheses is to be rewritten to \<^verbatim>\<open>1d(\<dots>)\<close> and then parsed
  recursively into a nested node. The parser of the second page source does the
  rewriting, but its regular expression wants a digit after the letter d and the node
  parser never calls itself: \<^verbatim>\<open>(2d6)\<close> becomes \<^verbatim>\<open>1d(2d6)\<close> and is rejected, and in
  \<^verbatim>\<open>2d6+(1d4)\<close> the group ends up, unparsed, in the modifier.
\<close>

theorem parseDiceExpression2_parentheses:
  "fill_parentheses (remove_whitespace ''(2d6)'') = ''1d(2d6)'' \<and>
   parseDiceExpression2 ''(2d6)'' = Inl InvalidDiceExpression \<and>
   parseDiceExpression2 ''2d6+(1d4)'' =
     Inr \<lparr>multiplier = Num 2, sides2 = NaN, modifier = ''+1d(1d4)''\<rparr>"
  by code_simp

end
